theory Spec2Isabelle
  imports Complex_Main "HOL-Library.Word"
begin

section \<open>JavaScript strings\<close>

text \<open>
  A JavaScript string is a sequence of UTF-16 code units; \<open>length\<close>, \<open>substr\<close>,
  \<open>startsWith\<close> and \<open>split\<close> all count code units. ASCII literals of the source are
  embedded with \<open>js\<close>.
\<close>

type_synonym code_unit = "16 word"
type_synonym js_string = "code_unit list"

definition js :: "string \<Rightarrow> js_string" where
  "js s = map (\<lambda>c. of_nat (of_char c)) s"

text \<open>\<open>String.prototype.startsWith(p)\<close> (position 0).\<close>

fun startsWith :: "js_string \<Rightarrow> js_string \<Rightarrow> bool" where
  "startsWith s [] = True"
| "startsWith [] (p # ps) = False"
| "startsWith (c # cs) (p # ps) = (c = p \<and> startsWith cs ps)"

text \<open>\<open>Array.prototype.join(sep)\<close> on an array of strings.\<close>

fun join :: "js_string \<Rightarrow> js_string list \<Rightarrow> js_string" where
  "join sep [] = []"
| "join sep [x] = x"
| "join sep (x # y # ys) = x @ sep @ join sep (y # ys)"

text \<open>\<open>s.substr(0, n)\<close> for a non-negative integer \<open>n\<close>: the first \<open>n\<close> code units.\<close>

definition substr0 :: "js_string \<Rightarrow> nat \<Rightarrow> js_string" where
  "substr0 s n = take n s"

section \<open>Data model\<close>

datatype TranslationStatus =
  UNAVAILABLE | DETECTING_LANGUAGE | LANGUAGE_NOT_DETECTED | OFFER
  | TRANSLATING | TRANSLATED | ERROR

text \<open>
  Modelled from the spec: \<open>FrameInfo\<close> and \<open>DetectedLanguageResults\<close> are declared in
  \<open>bergamot.types\<close>, which is not part of the sources at hand. The frame identifier is
  opaque to this class; a detection result is a language code with a confidence flag.
\<close>

type_synonym FrameInfo = nat

record DetectedLanguageResults =
  language :: js_string
  confident :: bool

text \<open>The JSON-patch operations handed to \<open>ExtensionState\<close>.\<close>

datatype patch_op = replace | add

datatype patch_value =
  StatusValue TranslationStatus
  | ResultsValue DetectedLanguageResults

datatype patch = Patch (op: patch_op) (path: "string list") (patch_value: patch_value)

text \<open>
  \<open>ExtensionState\<close> is written to and never read back by this class, so it is modelled
  as the sequence of method calls it has received.
\<close>

datatype ExtensionState_call =
  patchDocumentTranslationStateByFrameInfo FrameInfo "patch list"
  | deleteDocumentTranslationStateByFrameInfo FrameInfo

text \<open>
  The three closures the class hands to \<open>setTimeout(_, 0)\<close>, each with the variable it
  captures.
\<close>

datatype timer_callback =
  PatchTranslationStatus TranslationStatus
  | DeleteDocumentTranslationState
  | SaveDetectedLanguageResults DetectedLanguageResults

text \<open>
  A translatable unit of the document model: a reference to its DOM node (compared by
  identity, hence a handle).
\<close>

type_synonym node = nat

record TranslationItem =
  nodeRef :: node

text \<open>
  The DOM document as far as this class looks at it: its location, the text content of
  the translation nodes that \<open>getTranslationNodes(document.body)\<close> yields, and the units
  that the extraction of a \<open>TranslationDocument\<close> finds in the tree as it is now.
\<close>

record Document =
  location :: js_string
  translationNodes :: "js_string list"
  units :: "TranslationItem list"

text \<open>
  Modelled from the spec: the class \<open>TranslationDocument\<close> is not part of the sources at
  hand. It owns the units extracted at construction time, the language pair, the error
  flag and which text is visible; \<open>showTranslation()\<close> makes the translated text visible.
  \<open>showTranslation_calls\<close> counts the invocations of that method.
\<close>

record TranslationDocument =
  roots :: "TranslationItem list"
  translatedFrom :: "js_string option"
  translatedTo :: "js_string option"
  translationError :: bool
  originalShown :: bool
  showTranslation_calls :: nat

definition new_TranslationDocument :: "Document \<Rightarrow> TranslationDocument" where
  "new_TranslationDocument d =
     \<lparr>roots = units d, translatedFrom = None, translatedTo = None,
      translationError = False, originalShown = True, showTranslation_calls = 0\<rparr>"

definition showTranslation :: "TranslationDocument \<Rightarrow> TranslationDocument" where
  "showTranslation td =
     td\<lparr>originalShown := False, showTranslation_calls := Suc (showTranslation_calls td)\<rparr>"

text \<open>
  Objects are held by reference: a \<open>TranslationDocument\<close> lives in a store and the
  content window's property \<open>translationDocument\<close> is a reference into it (\<open>None\<close> for
  \<open>undefined\<close>).
\<close>

type_synonym ref = nat

record ContentWindow =
  translationDocument :: "ref option"

text \<open>
  The state of one \<open>TranslationChild\<close> and of the collaborators it acts on:
  \<^item> \<open>frameInfo\<close>, \<open>document\<close>, \<open>contentWindow\<close>: the fields of the class
    (\<open>contentWindow = None\<close> when the reference is null);
  \<^item> \<open>global_document\<close>: the global \<open>document\<close> of the content script;
  \<^item> \<open>store\<close>, \<open>next_ref\<close>: the objects of class \<open>TranslationDocument\<close> and the next free
    reference;
  \<^item> \<open>timers\<close>: the callbacks scheduled with \<open>setTimeout(_, 0)\<close> that have not run yet,
    oldest first;
  \<^item> \<open>extensionState\<close>: the calls \<open>ExtensionState\<close> has received, oldest first;
  \<^item> \<open>languageDetector\<close>: the samples \<open>detectLanguage\<close> has been called with.
\<close>

record TranslationChild =
  frameInfo :: FrameInfo
  document :: Document
  contentWindow :: "ContentWindow option"
  global_document :: Document
  store :: "ref \<Rightarrow> TranslationDocument"
  next_ref :: ref
  timers :: "timer_callback list"
  extensionState :: "ExtensionState_call list"
  languageDetector :: "js_string list"

text \<open>
  What can be thrown: the \<open>TypeError\<close> of reading a property of \<open>null\<close>, or any other
  exception value, told apart by a number.
\<close>

datatype error = TypeError | Exception nat

text \<open>How an \<open>async\<close> function settles.\<close>

datatype settled = Resolved | Rejected error

section \<open>The event loop\<close>

definition setTimeout :: "timer_callback \<Rightarrow> TranslationChild \<Rightarrow> TranslationChild" where
  "setTimeout cb s = s\<lparr>timers := timers s @ [cb]\<rparr>"

text \<open>Running one callback: each reads \<open>this.frameInfo\<close> and calls \<open>this.extensionState\<close>.\<close>

fun run_callback :: "timer_callback \<Rightarrow> TranslationChild \<Rightarrow> TranslationChild" where
  "run_callback (PatchTranslationStatus translationStatus) s =
     s\<lparr>extensionState := extensionState s @
        [patchDocumentTranslationStateByFrameInfo (frameInfo s)
           [Patch replace [''translationStatus''] (StatusValue translationStatus)]]\<rparr>"
| "run_callback DeleteDocumentTranslationState s =
     s\<lparr>extensionState := extensionState s @
        [deleteDocumentTranslationStateByFrameInfo (frameInfo s)]\<rparr>"
| "run_callback (SaveDetectedLanguageResults result) s =
     s\<lparr>extensionState := extensionState s @
        [patchDocumentTranslationStateByFrameInfo (frameInfo s)
           [Patch add [''detectedLanguageResults''] (ResultsValue result)]]\<rparr>"

text \<open>The next ticks of the event loop: the pending callbacks run in the order scheduled.\<close>

definition run_timers :: "TranslationChild \<Rightarrow> TranslationChild" where
  "run_timers s = fold run_callback (timers s) (s\<lparr>timers := []\<rparr>)"

section \<open>TranslationChild\<close>

definition broadcastUpdatedTranslationStatus ::
  "TranslationStatus \<Rightarrow> TranslationChild \<Rightarrow> TranslationChild" where
  "broadcastUpdatedTranslationStatus translationStatus s =
     setTimeout (PatchTranslationStatus translationStatus) s"

text \<open>The local function \<open>domElementsToStringWithMaxLength\<close> of \<open>attemptToDetectLanguage\<close>,
  applied to the text content of the elements.\<close>

definition domElementsToStringWithMaxLength :: "js_string list \<Rightarrow> nat \<Rightarrow> js_string" where
  "domElementsToStringWithMaxLength elements maxLength =
     substr0 (join (js ''\<newline>'') elements) maxLength"

text \<open>
  \<open>attemptToDetectLanguage\<close> up to its \<open>await\<close>: it either settles (\<open>Inl\<close>) or has called
  the detector with a sample and is suspended (\<open>Inr\<close>).
\<close>

definition attemptToDetectLanguage_begin ::
  "TranslationChild \<Rightarrow> (settled + js_string) \<times> TranslationChild" where
  "attemptToDetectLanguage_begin s =
     (let url = location (document s) in
      if \<not> startsWith url (js ''http://'') \<and> \<not> startsWith url (js ''https://'')
      then (Inl Resolved, broadcastUpdatedTranslationStatus UNAVAILABLE s)
      else
        let s1 = broadcastUpdatedTranslationStatus DETECTING_LANGUAGE s;
            string = domElementsToStringWithMaxLength
                       (translationNodes (global_document s1)) (60 * 1024)
        in if length string < 100
           then (Inl Resolved, broadcastUpdatedTranslationStatus LANGUAGE_NOT_DETECTED s1)
           else (Inr string, s1\<lparr>languageDetector := languageDetector s1 @ [string]\<rparr>))"

text \<open>
  \<open>attemptToDetectLanguage\<close> from the moment the detector's promise settles, in the state
  the rest of the page has left behind meanwhile.
\<close>

definition attemptToDetectLanguage_resume ::
  "error + DetectedLanguageResults \<Rightarrow> TranslationChild \<Rightarrow> settled \<times> TranslationChild" where
  "attemptToDetectLanguage_resume outcome s =
     (case outcome of
        Inl ex \<Rightarrow> (Rejected ex, s)
      | Inr result \<Rightarrow>
          if contentWindow s = None
          then (Resolved, setTimeout DeleteDocumentTranslationState s)
          else
            let s1 = setTimeout (SaveDetectedLanguageResults result) s in
            if \<not> confident result
            then (Resolved, broadcastUpdatedTranslationStatus LANGUAGE_NOT_DETECTED s1)
            else (Resolved, broadcastUpdatedTranslationStatus OFFER s1))"

text \<open>
  The whole call. \<open>detectLanguage\<close> stands for everything that happens while the
  function is suspended: the detector's answer for the sample, and the state as the
  event loop and the page leave it (timers run, the window goes away).
\<close>

definition attemptToDetectLanguage ::
  "(js_string \<Rightarrow> TranslationChild \<Rightarrow> (error + DetectedLanguageResults) \<times> TranslationChild)
   \<Rightarrow> TranslationChild \<Rightarrow> settled \<times> TranslationChild" where
  "attemptToDetectLanguage detectLanguage s =
     (case attemptToDetectLanguage_begin s of
        (Inl r, s1) \<Rightarrow> (r, s1)
      | (Inr string, s1) \<Rightarrow>
          (case detectLanguage string s1 of
             (outcome, s2) \<Rightarrow> attemptToDetectLanguage_resume outcome s2))"

text \<open>
  Modelled from the spec: the class \<open>BergamotTranslator\<close> is not part of the sources at
  hand. Its constructor keeps the document model and the language pair; what
  \<open>translate()\<close> does is a parameter of \<open>doTranslation\<close> below.
\<close>

record BergamotTranslator =
  translator_document :: ref
  translator_from :: js_string
  translator_to :: js_string

definition update_document ::
  "ref \<Rightarrow> (TranslationDocument \<Rightarrow> TranslationDocument) \<Rightarrow> TranslationChild \<Rightarrow> TranslationChild" where
  "update_document r f s = s\<lparr>store := (store s)(r := f (store s r))\<rparr>"

text \<open>\<open>new TranslationDocument(this.document)\<close>: a fresh object in the store.\<close>

definition construct_TranslationDocument :: "TranslationChild \<Rightarrow> ref \<times> TranslationChild" where
  "construct_TranslationDocument s =
     (next_ref s,
      s\<lparr>store := (store s)(next_ref s := new_TranslationDocument (document s)),
        next_ref := Suc (next_ref s)\<rparr>)"

text \<open>
  \<open>this.contentWindow.translationDocument || new TranslationDocument(this.document)\<close>
  for a content window that is there: the constructor runs only when the property is
  undefined.
\<close>

definition existing_or_new_TranslationDocument ::
  "ContentWindow \<Rightarrow> TranslationChild \<Rightarrow> ref \<times> TranslationChild" where
  "existing_or_new_TranslationDocument cw s =
     (case translationDocument cw of
        Some r \<Rightarrow> (r, s)
      | None \<Rightarrow> construct_TranslationDocument s)"

text \<open>
  \<open>doTranslation\<close> up to its \<open>await\<close>. Reading a property of a null \<open>contentWindow\<close>
  throws, which rejects the promise of the \<open>async\<close> function (\<open>Inl\<close>); otherwise the
  function is suspended in \<open>translator.translate()\<close> (\<open>Inr\<close>).
\<close>

definition doTranslation_begin ::
  "js_string \<Rightarrow> js_string \<Rightarrow> TranslationChild
   \<Rightarrow> (settled + BergamotTranslator) \<times> TranslationChild" where
  "doTranslation_begin aFrom aTo s =
     (case contentWindow s of
        None \<Rightarrow> (Inl (Rejected TypeError), s)
      | Some cw \<Rightarrow>
          (case existing_or_new_TranslationDocument cw s of
             (td, s1) \<Rightarrow>
               let s2 = broadcastUpdatedTranslationStatus TRANSLATING s1;
                   translator = \<lparr>translator_document = td,
                                 translator_from = aFrom, translator_to = aTo\<rparr>;
                   s3 = s2\<lparr>contentWindow :=
                          map_option (\<lambda>w. w\<lparr>translationDocument := Some td\<rparr>)
                            (contentWindow s2)\<rparr>;
                   s4 = update_document td
                          (\<lambda>d. d\<lparr>translatedFrom := Some aFrom, translatedTo := Some aTo,
                                   translationError := False\<rparr>) s3
               in (Inr translator, s4)))"

text \<open>
  \<open>doTranslation\<close> from the moment the promise of \<open>translate()\<close> settles: the \<open>try\<close>
  block continues when it resolved, the \<open>catch\<close> block runs when it rejected. The local
  variable \<open>translationDocument\<close> (here \<open>td\<close>) still refers to the object chosen before the \<open>await\<close>.
\<close>

definition doTranslation_resume ::
  "ref \<Rightarrow> error + unit \<Rightarrow> TranslationChild \<Rightarrow> settled \<times> TranslationChild" where
  "doTranslation_resume td outcome s =
     (case outcome of
        Inr _ \<Rightarrow>
          (Resolved,
           broadcastUpdatedTranslationStatus TRANSLATED
             (update_document td showTranslation s))
      | Inl ex \<Rightarrow>
          (Resolved,
           broadcastUpdatedTranslationStatus ERROR
             (update_document td (\<lambda>d. d\<lparr>translationError := True\<rparr>) s)))"

text \<open>
  The whole call. \<open>translate\<close> stands for everything that happens while the function is
  suspended: how the translator's promise settles, what the translator wrote into the
  document model, and the state as the event loop and the page leave it.
\<close>

definition doTranslation ::
  "(BergamotTranslator \<Rightarrow> TranslationChild \<Rightarrow> (error + unit) \<times> TranslationChild)
   \<Rightarrow> js_string \<Rightarrow> js_string \<Rightarrow> TranslationChild \<Rightarrow> settled \<times> TranslationChild" where
  "doTranslation translate aFrom aTo s =
     (case doTranslation_begin aFrom aTo s of
        (Inl r, s1) \<Rightarrow> (r, s1)
      | (Inr translator, s1) \<Rightarrow>
          (case translate translator s1 of
             (outcome, s2) \<Rightarrow> doTranslation_resume (translator_document translator) outcome s2))"

section \<open>Statistics\<close>

text \<open>
  What the page layout answers: \<open>window.innerHeight\<close> and \<open>window.innerWidth\<close>, the
  client size of \<open>document.documentElement\<close>, and \<open>getBoundingClientRect()\<close> of a node.
  The numbers are finite doubles, compared only, so they are read as reals.
\<close>

record DOMRect =
  rect_top :: real
  rect_left :: real
  rect_bottom :: real
  rect_right :: real

record Layout =
  innerHeight :: real
  innerWidth :: real
  clientHeight :: real
  clientWidth :: real
  getBoundingClientRect :: "node \<Rightarrow> DOMRect"

definition isElementInViewport :: "Layout \<Rightarrow> node \<Rightarrow> bool" where
  "isElementInViewport w el =
     (let rect = getBoundingClientRect w el in
      rect_top rect \<ge> 0 \<and> rect_left rect \<ge> 0 \<and>
      rect_bottom rect \<le> (if innerHeight w \<noteq> 0 then innerHeight w else clientHeight w) \<and>
      rect_right rect \<le> (if innerWidth w \<noteq> 0 then innerWidth w else clientWidth w))"

record IntersectionObserverEntry =
  target :: node
  isIntersecting :: bool

text \<open>
  \<open>getElementsVisibleInViewport\<close>: the promise resolves when the observer's callback is
  called. \<open>observe\<close> is what the browser passes to the callback for the observed
  elements, \<open>None\<close> when it never calls it; then the promise stays pending.
\<close>

definition getElementsVisibleInViewport ::
  "(node list \<Rightarrow> IntersectionObserverEntry list option) \<Rightarrow> node list \<Rightarrow> node list option" where
  "getElementsVisibleInViewport observe elements =
     map_option (\<lambda>entries. map target (filter isIntersecting entries)) (observe elements)"

text \<open>
  \<open>text.replace(/<[^>]*>?/gm, " ")\<close>: every \<open><\<close> together with the following code units
  up to and including the next \<open>>\<close> (or up to the end of the string) becomes one space.
  The flag says whether the scan is inside such a match.
\<close>

fun replace_tags :: "bool \<Rightarrow> js_string \<Rightarrow> js_string" where
  "replace_tags in_tag [] = []"
| "replace_tags False (c # cs) =
     (if c = 0x3C then 0x20 # replace_tags True cs else c # replace_tags False cs)"
| "replace_tags True (c # cs) =
     (if c = 0x3E then replace_tags False cs else replace_tags True cs)"

text \<open>The code units \<open>String.prototype.trim\<close> removes: white space and line terminators.\<close>

definition isWhiteSpace :: "code_unit \<Rightarrow> bool" where
  "isWhiteSpace c =
     (c = 0x9 \<or> c = 0xA \<or> c = 0xB \<or> c = 0xC \<or> c = 0xD \<or> c = 0x20 \<or> c = 0xA0 \<or>
      c = 0x1680 \<or> (0x2000 \<le> c \<and> c \<le> 0x200A) \<or> c = 0x2028 \<or> c = 0x2029 \<or>
      c = 0x202F \<or> c = 0x205F \<or> c = 0x3000 \<or> c = 0xFEFF)"

definition trim :: "js_string \<Rightarrow> js_string" where
  "trim s = rev (dropWhile isWhiteSpace (rev (dropWhile isWhiteSpace s)))"

text \<open>\<open>s.split(" ")\<close>, for a separator of one code unit; \<open>field\<close> is the field being read.\<close>

fun split_from :: "code_unit \<Rightarrow> js_string \<Rightarrow> js_string \<Rightarrow> js_string list" where
  "split_from sep field [] = [field]"
| "split_from sep field (c # cs) =
     (if c = sep then field # split_from sep [] cs else split_from sep (field @ [c]) cs)"

definition split :: "js_string \<Rightarrow> code_unit \<Rightarrow> js_string list" where
  "split s sep = split_from sep [] s"

text \<open>
  The loop over \<open>rootsList\<close>, with the three arrays it fills. \<open>generateTextForItem\<close> is a
  method of the absent \<open>TranslationDocument\<close>: it is a parameter, \<open>None\<close> standing for
  \<open>null\<close> or \<open>undefined\<close>.
\<close>

fun collect_texts ::
  "(TranslationItem \<Rightarrow> js_string option) \<Rightarrow> Layout \<Rightarrow> node list \<Rightarrow> TranslationItem list
   \<Rightarrow> js_string list \<times> js_string list \<times> js_string list
   \<Rightarrow> js_string list \<times> js_string list \<times> js_string list" where
  "collect_texts generateTextForItem w elementsVisibleInViewport [] acc = acc"
| "collect_texts generateTextForItem w elementsVisibleInViewport (item # rootsList)
     (texts, textsInViewport, textsVisibleInViewport) =
     (case generateTextForItem item of
        None \<Rightarrow>
          collect_texts generateTextForItem w elementsVisibleInViewport rootsList
            (texts, textsInViewport, textsVisibleInViewport)
      | Some text0 \<Rightarrow>
          if text0 = []
          then collect_texts generateTextForItem w elementsVisibleInViewport rootsList
                 (texts, textsInViewport, textsVisibleInViewport)
          else
            let text = trim (replace_tags False text0);
                inViewport = isElementInViewport w (nodeRef item);
                visibleInViewport = find (\<lambda>el. el = nodeRef item) elementsVisibleInViewport
            in collect_texts generateTextForItem w elementsVisibleInViewport rootsList
                 (texts @ [text],
                  if inViewport then textsInViewport @ [text] else textsInViewport,
                  if visibleInViewport \<noteq> None then textsVisibleInViewport @ [text]
                  else textsVisibleInViewport))"

record DocumentTranslationStatistics =
  texts :: "js_string list"
  textsInViewport :: "js_string list"
  textsVisibleInViewport :: "js_string list"
  wordCount :: nat
  wordCountInViewport :: nat
  wordCountVisibleInViewport :: nat

text \<open>
  \<open>getDocumentTranslationStatistics\<close>: \<open>None\<close> when the promise never settles (the
  observer's callback is never called), \<open>Some (Inl e)\<close> when it rejects,
  \<open>Some (Inr statistics)\<close> when it resolves.
\<close>

definition getDocumentTranslationStatistics ::
  "Layout \<Rightarrow> (node list \<Rightarrow> IntersectionObserverEntry list option)
   \<Rightarrow> (TranslationDocument \<Rightarrow> TranslationItem \<Rightarrow> js_string option)
   \<Rightarrow> TranslationChild \<Rightarrow> ((error + DocumentTranslationStatistics) \<times> TranslationChild) option" where
  "getDocumentTranslationStatistics w observe generateTextForItem s =
     (case contentWindow s of
        None \<Rightarrow> Some (Inl TypeError, s)
      | Some cw \<Rightarrow>
          (case existing_or_new_TranslationDocument cw s of
             (td, s1) \<Rightarrow>
               let rootsList = roots (store s1 td);
                   elements = map nodeRef rootsList
               in (case getElementsVisibleInViewport observe elements of
                     None \<Rightarrow> None
                   | Some elementsVisibleInViewport \<Rightarrow>
                       (case collect_texts (generateTextForItem (store s1 td)) w
                               elementsVisibleInViewport rootsList ([], [], []) of
                          (ts, tsInViewport, tsVisibleInViewport) \<Rightarrow>
                            Some (Inr \<lparr>texts = ts,
                                       textsInViewport = tsInViewport,
                                       textsVisibleInViewport = tsVisibleInViewport,
                                       wordCount = length (split (join (js '' '') ts) 0x20),
                                       wordCountInViewport =
                                         length (split (join (js '' '') tsInViewport) 0x20),
                                       wordCountVisibleInViewport =
                                         length (split (join (js '' '') tsVisibleInViewport) 0x20)\<rparr>,
                                  s1)))))"

text \<open>
  \<open>getDocumentTranslationStatistics\<close> up to its \<open>await\<close> of the observer: the document
  model it works on, which it does not store on the content window, and the elements
  it has the observer watch. The function is suspended holding that model.
\<close>

definition getDocumentTranslationStatistics_begin ::
  "TranslationChild \<Rightarrow> (error + ref \<times> node list) \<times> TranslationChild" where
  "getDocumentTranslationStatistics_begin s =
     (case contentWindow s of
        None \<Rightarrow> (Inl TypeError, s)
      | Some cw \<Rightarrow>
          (case existing_or_new_TranslationDocument cw s of
             (td, s1) \<Rightarrow> (Inr (td, map nodeRef (roots (store s1 td))), s1)))"

section \<open>Observing the broadcasts\<close>

text \<open>The call to \<open>ExtensionState\<close> that a timer callback makes for a given frame.\<close>

fun callback_call :: "FrameInfo \<Rightarrow> timer_callback \<Rightarrow> ExtensionState_call" where
  "callback_call fi (PatchTranslationStatus st) =
     patchDocumentTranslationStateByFrameInfo fi
       [Patch replace [''translationStatus''] (StatusValue st)]"
| "callback_call fi DeleteDocumentTranslationState =
     deleteDocumentTranslationStateByFrameInfo fi"
| "callback_call fi (SaveDetectedLanguageResults result) =
     patchDocumentTranslationStateByFrameInfo fi
       [Patch add [''detectedLanguageResults''] (ResultsValue result)]"

text \<open>
  A history of status changes: calls of \<open>broadcastUpdatedTranslationStatus\<close>, with the
  event loop taking its turn (\<open>Tick\<close>) anywhere in between, or not at all.
\<close>

datatype event = Broadcast TranslationStatus | Tick

fun run_event :: "event \<Rightarrow> TranslationChild \<Rightarrow> TranslationChild" where
  "run_event (Broadcast st) s = broadcastUpdatedTranslationStatus st s"
| "run_event Tick s = run_timers s"

fun broadcasts :: "event list \<Rightarrow> TranslationStatus list" where
  "broadcasts [] = []"
| "broadcasts (Broadcast st # evs) = st # broadcasts evs"
| "broadcasts (Tick # evs) = broadcasts evs"

section \<open>Reference notions and scenarios\<close>

text \<open>The texts with a line feed between each two of them.\<close>

definition joined_by_newline :: "js_string list \<Rightarrow> js_string" where
  "joined_by_newline ts =
     (case ts of [] \<Rightarrow> [] | t # us \<Rightarrow> t @ concat (map (\<lambda>u. 0x0A # u) us))"

text \<open>
  The document of the spec's scenario: two paragraphs of more than 100 characters in
  all, at \<open>https://example.com\<close>, in a frame whose content window has no
  \<open>TranslationDocument\<close> yet.
\<close>

definition scenario_document :: Document where
  "scenario_document =
     \<lparr>location = js ''https://example.com'',
      translationNodes =
        [js ''Hello world.'',
         js ''This is a test sentence for detection and translation purposes, long enough to pass threshold checks easily here.''],
      units = [\<lparr>nodeRef = 0\<rparr>, \<lparr>nodeRef = 1\<rparr>]\<rparr>"

definition scenario_child :: TranslationChild where
  "scenario_child =
     \<lparr>frameInfo = 7, document = scenario_document,
      contentWindow = Some \<lparr>translationDocument = None\<rparr>,
      global_document = scenario_document,
      store = (\<lambda>r. new_TranslationDocument scenario_document), next_ref = 0,
      timers = [], extensionState = [], languageDetector = []\<rparr>"

definition scenario_sample :: js_string where
  "scenario_sample =
     js ''Hello world.'' @ 0x0A #
     js ''This is a test sentence for detection and translation purposes, long enough to pass threshold checks easily here.''"

text \<open>The scenario's frame while it waits for the detector.\<close>

definition scenario_awaiting :: TranslationChild where
  "scenario_awaiting =
     scenario_child\<lparr>timers := [PatchTranslationStatus DETECTING_LANGUAGE],
                     languageDetector := [scenario_sample]\<rparr>"

text \<open>The same document at a \<open>file:\<close> URL, and a page with very little text.\<close>

definition local_file_child :: TranslationChild where
  "local_file_child =
     scenario_child\<lparr>document := scenario_document\<lparr>location := js ''file:///local.html''\<rparr>\<rparr>"

definition short_child :: TranslationChild where
  "short_child =
     scenario_child\<lparr>global_document :=
                       scenario_document\<lparr>translationNodes := [js ''Hi'', js ''there'']\<rparr>\<rparr>"

definition confident_result :: DetectedLanguageResults where
  "confident_result = \<lparr>language = js ''en'', confident = True\<rparr>"

definition unsure_result :: DetectedLanguageResults where
  "unsure_result = \<lparr>language = js ''en'', confident = False\<rparr>"

text \<open>
  Two ways the wait for the detector can go: the event loop runs the pending timers and
  the detector answers; or, besides, the content window goes away meanwhile.
\<close>

definition detector_answers ::
  "DetectedLanguageResults \<Rightarrow> js_string \<Rightarrow> TranslationChild
   \<Rightarrow> (error + DetectedLanguageResults) \<times> TranslationChild" where
  "detector_answers result sample s = (Inr result, run_timers s)"

definition detector_answers_window_gone ::
  "DetectedLanguageResults \<Rightarrow> js_string \<Rightarrow> TranslationChild
   \<Rightarrow> (error + DetectedLanguageResults) \<times> TranslationChild" where
  "detector_answers_window_gone result sample s =
     (Inr result, (run_timers s)\<lparr>contentWindow := None\<rparr>)"

text \<open>
  Three ways the wait for the translator can go: it succeeds, it fails, or it succeeds
  while the content window goes away; the event loop runs the pending timers meanwhile.
\<close>

definition translate_succeeds ::
  "BergamotTranslator \<Rightarrow> TranslationChild \<Rightarrow> (error + unit) \<times> TranslationChild" where
  "translate_succeeds translator s = (Inr (), run_timers s)"

definition translate_fails ::
  "BergamotTranslator \<Rightarrow> TranslationChild \<Rightarrow> (error + unit) \<times> TranslationChild" where
  "translate_fails translator s = (Inl (Exception 0), run_timers s)"

definition translate_succeeds_window_gone ::
  "BergamotTranslator \<Rightarrow> TranslationChild \<Rightarrow> (error + unit) \<times> TranslationChild" where
  "translate_succeeds_window_gone translator s =
     (Inr (), (run_timers s)\<lparr>contentWindow := None\<rparr>)"

text \<open>The scenario's frame while it waits for the translation from English to German.\<close>

definition scenario_translator :: BergamotTranslator where
  "scenario_translator =
     \<lparr>translator_document = 0, translator_from = js ''en'', translator_to = js ''de''\<rparr>"

definition scenario_translating :: TranslationChild where
  "scenario_translating =
     scenario_child
       \<lparr>contentWindow := Some \<lparr>translationDocument = Some 0\<rparr>,
        store := (store scenario_child)
          (0 := (new_TranslationDocument scenario_document)
                  \<lparr>translatedFrom := Some (js ''en''), translatedTo := Some (js ''de''),
                   translationError := False\<rparr>),
        next_ref := 1,
        timers := [PatchTranslationStatus TRANSLATING]\<rparr>"

text \<open>The number of fields that single spaces separate: one more than there are spaces.\<close>

definition number_of_fields :: "js_string \<Rightarrow> nat" where
  "number_of_fields s = Suc (length (filter (\<lambda>c. c = 0x20) s))"

text \<open>
  The scenario's page measured: the first paragraph lies within the viewport of 800 by
  600, the second below it; the observer reports no intersection; the first unit's text
  carries a tag.
\<close>

definition scenario_layout :: Layout where
  "scenario_layout =
     \<lparr>innerHeight = 600, innerWidth = 800, clientHeight = 600, clientWidth = 800,
      getBoundingClientRect =
        (\<lambda>el. if el = 0
              then \<lparr>rect_top = 10, rect_left = 10, rect_bottom = 50, rect_right = 700\<rparr>
              else \<lparr>rect_top = 900, rect_left = 10, rect_bottom = 950, rect_right = 700\<rparr>)\<rparr>"

definition nothing_intersects :: "node list \<Rightarrow> IntersectionObserverEntry list option" where
  "nothing_intersects elements =
     Some (map (\<lambda>el. \<lparr>target = el, isIntersecting = False\<rparr>) elements)"

definition scenario_texts :: "TranslationDocument \<Rightarrow> TranslationItem \<Rightarrow> js_string option" where
  "scenario_texts td item =
     (if nodeRef item = 0 then Some (js ''<b>Hello</b> world'') else Some (js ''Hi''))"

definition scenario_measured :: TranslationChild where
  "scenario_measured =
     scenario_child
       \<lparr>store := (store scenario_child)(0 := new_TranslationDocument scenario_document),
        next_ref := 1\<rparr>"

section \<open>Broadcasting a status\<close>

lemma run_callback_call:
  "run_callback cb s =
     s\<lparr>extensionState := extensionState s @ [callback_call (frameInfo s) cb]\<rparr>"
  by (cases cb) simp_all

lemma fold_run_callback:
  "fold run_callback cbs s =
     s\<lparr>extensionState := extensionState s @ map (callback_call (frameInfo s)) cbs\<rparr>"
proof (induction cbs arbitrary: s)
  case Nil
  show ?case by simp
next
  case (Cons cb cbs)
  show ?case by (cases cb) (simp_all add: Cons.IH)
qed

lemma run_timers_eq:
  "run_timers s =
     s\<lparr>timers := [],
       extensionState := extensionState s @ map (callback_call (frameInfo s)) (timers s)\<rparr>"
  by (simp add: run_timers_def fold_run_callback)

lemma run_timers_idem: "run_timers (run_timers s) = run_timers s"
  by (simp add: run_timers_eq)

lemma run_timers_setTimeout:
  "run_timers (setTimeout cb s) =
     (run_timers s)\<lparr>extensionState :=
        extensionState (run_timers s) @ [callback_call (frameInfo s) cb]\<rparr>"
  by (simp add: run_timers_eq setTimeout_def)

lemma frameInfo_setTimeout: "frameInfo (setTimeout cb s) = frameInfo s"
  by (simp add: setTimeout_def)

lemma broadcast_deferred:
  "extensionState (broadcastUpdatedTranslationStatus st s) = extensionState s \<and>
   timers (broadcastUpdatedTranslationStatus st s) = timers s @ [PatchTranslationStatus st]"
  by (simp add: broadcastUpdatedTranslationStatus_def setTimeout_def)

lemma extensionState_run_events:
  "extensionState (run_timers (fold run_event evs s)) =
     extensionState (run_timers s) @
       map (\<lambda>st. callback_call (frameInfo s) (PatchTranslationStatus st)) (broadcasts evs)"
proof (induction evs arbitrary: s)
  case Nil
  show ?case by simp
next
  case (Cons e evs)
  show ?case
  proof (cases e)
    case (Broadcast st)
    then show ?thesis
      using Cons.IH [of "run_event e s"]
      by (simp add: frameInfo_setTimeout broadcastUpdatedTranslationStatus_def
            run_timers_setTimeout)
  next
    case Tick
    then show ?thesis
      using Cons.IH [of "run_event e s"]
      by (simp add: run_timers_idem run_timers_eq)
  qed
qed

text \<open>
  C8. A call of \<open>broadcastUpdatedTranslationStatus\<close> leaves \<open>ExtensionState\<close> alone and
  schedules one callback. Take any history of such calls, the event loop running
  between them or not, and let the event loop take its turn at the end. Then
  \<open>ExtensionState\<close> has received, after whatever was pending before, exactly one call of
  \<open>patchDocumentTranslationStateByFrameInfo\<close> per call of
  \<open>broadcastUpdatedTranslationStatus\<close>, in the order of the calls, each carrying the
  single patch \<open>replace translationStatus\<close> with the status of that call: statuses
  broadcast within one tick are not merged into the last one.
\<close>

theorem broadcast_one_patch_per_call:
  "extensionState (broadcastUpdatedTranslationStatus st s) = extensionState s \<and>
   timers (broadcastUpdatedTranslationStatus st s) = timers s @ [PatchTranslationStatus st] \<and>
   extensionState (run_timers (fold run_event evs s)) =
     extensionState (run_timers s) @
       map (\<lambda>st. patchDocumentTranslationStateByFrameInfo (frameInfo s)
                    [Patch replace [''translationStatus''] (StatusValue st)])
         (broadcasts evs)"
  by (simp add: broadcast_deferred extensionState_run_events)

section \<open>Language detection\<close>

lemma timers_run_timers: "timers (run_timers s) = []"
  by (simp add: run_timers_eq)

lemma js_newline: "js ''\<newline>'' = [0x0A]"
  by (simp add: js_def)

lemma join_concat: "join sep (t # us) = t @ concat (map (\<lambda>u. sep @ u) us)"
  by (induction us arbitrary: t) simp_all

lemma join_newline: "join [0x0A] ts = joined_by_newline ts"
  by (cases ts) (simp_all add: joined_by_newline_def join_concat)

lemma sample_eq:
  "domElementsToStringWithMaxLength ts 61440 = take 61440 (joined_by_newline ts)"
  by (simp add: domElementsToStringWithMaxLength_def substr0_def js_newline join_newline)

text \<open>
  C3. When the document's URL starts neither with \<open>http://\<close> nor with \<open>https://\<close>,
  \<open>attemptToDetectLanguage\<close> resolves having scheduled one callback only, the status
  patch for \<open>UNAVAILABLE\<close> (so none for \<open>DETECTING_LANGUAGE\<close>), and the detector has
  been called no more than before, whatever it would have answered.
\<close>

theorem non_web_url_unavailable:
  assumes "\<not> startsWith (location (document s)) (js ''http://'')"
    and "\<not> startsWith (location (document s)) (js ''https://'')"
  shows "attemptToDetectLanguage detectLanguage s =
           (Resolved, s\<lparr>timers := timers s @ [PatchTranslationStatus UNAVAILABLE]\<rparr>) \<and>
         languageDetector (snd (attemptToDetectLanguage detectLanguage s)) = languageDetector s"
  using assms
  by (simp add: attemptToDetectLanguage_def attemptToDetectLanguage_begin_def
        broadcastUpdatedTranslationStatus_def setTimeout_def)

theorem non_web_url_unavailable_witness:
  "attemptToDetectLanguage (detector_answers confident_result) local_file_child =
     (Resolved, local_file_child\<lparr>timers := [PatchTranslationStatus UNAVAILABLE]\<rparr>)"
proof -
  have h1: "\<not> startsWith (location (document local_file_child)) (js ''http://'')"
    by (simp add: local_file_child_def scenario_child_def scenario_document_def js_def)
  have h2: "\<not> startsWith (location (document local_file_child)) (js ''https://'')"
    by (simp add: local_file_child_def scenario_child_def scenario_document_def js_def)
  show ?thesis
    using non_web_url_unavailable [OF h1 h2]
    by (simp add: local_file_child_def scenario_child_def)
qed

lemma web_short:
  "startsWith (location (document short_child)) (js ''http://'') \<or>
   startsWith (location (document short_child)) (js ''https://'')"
  by (simp add: short_child_def scenario_child_def scenario_document_def js_def)

text \<open>
  C4. On an \<open>http://\<close> or \<open>https://\<close> URL the sample is the first 61440 code units of
  the translation nodes' texts with a line feed between each two, so it is never longer
  than 61440. When it is shorter than 100, the call resolves having scheduled the status
  patches for \<open>DETECTING_LANGUAGE\<close> and \<open>LANGUAGE_NOT_DETECTED\<close> and nothing else, the
  detector not having been called; otherwise the detector is called with exactly this
  sample.
\<close>

theorem detection_sample_short_skips_detector:
  assumes "startsWith (location (document s)) (js ''http://'') \<or>
           startsWith (location (document s)) (js ''https://'')"
  shows "let sample = take 61440 (joined_by_newline (translationNodes (global_document s))) in
         length sample \<le> 61440 \<and>
         (if length sample < 100
          then attemptToDetectLanguage detectLanguage s =
                 (Resolved,
                  s\<lparr>timers := timers s @ [PatchTranslationStatus DETECTING_LANGUAGE,
                                           PatchTranslationStatus LANGUAGE_NOT_DETECTED]\<rparr>)
          else attemptToDetectLanguage_begin s =
                 (Inr sample,
                  s\<lparr>timers := timers s @ [PatchTranslationStatus DETECTING_LANGUAGE],
                    languageDetector := languageDetector s @ [sample]\<rparr>))"
  using assms
  by (auto simp add: Let_def attemptToDetectLanguage_def attemptToDetectLanguage_begin_def
        broadcastUpdatedTranslationStatus_def setTimeout_def sample_eq)

theorem detection_sample_short_skips_detector_witness:
  "attemptToDetectLanguage (detector_answers confident_result) short_child =
     (Resolved,
      short_child\<lparr>timers := [PatchTranslationStatus DETECTING_LANGUAGE,
                               PatchTranslationStatus LANGUAGE_NOT_DETECTED]\<rparr>)"
  using detection_sample_short_skips_detector
          [OF web_short, of "detector_answers confident_result"]
  by (simp add: Let_def short_child_def scenario_child_def scenario_document_def
        joined_by_newline_def js_def)

text \<open>The scenario's frame reaches the detector, and what the two waits leave behind.\<close>

lemma scenario_begin:
  "attemptToDetectLanguage_begin scenario_child = (Inr scenario_sample, scenario_awaiting)"
  by (simp add: Let_def attemptToDetectLanguage_begin_def broadcastUpdatedTranslationStatus_def
        setTimeout_def domElementsToStringWithMaxLength_def substr0_def scenario_awaiting_def
        scenario_child_def scenario_document_def scenario_sample_def js_def)

lemma scenario_answer:
  "detector_answers result scenario_sample scenario_awaiting =
     (Inr result, run_timers scenario_awaiting)"
  by (simp add: detector_answers_def)

lemma scenario_answer_gone:
  "detector_answers_window_gone result scenario_sample scenario_awaiting =
     (Inr result, (run_timers scenario_awaiting)\<lparr>contentWindow := None\<rparr>)"
  by (simp add: detector_answers_window_gone_def)

lemma scenario_live:
  "contentWindow (run_timers scenario_awaiting) = Some \<lparr>translationDocument = None\<rparr>"
  by (simp add: run_timers_eq scenario_awaiting_def scenario_child_def)

lemma scenario_awaiting_log:
  "extensionState (run_timers scenario_awaiting) =
     [patchDocumentTranslationStateByFrameInfo 7
        [Patch replace [''translationStatus''] (StatusValue DETECTING_LANGUAGE)]] \<and>
   frameInfo (run_timers scenario_awaiting) = 7"
  by (simp add: run_timers_eq scenario_awaiting_def scenario_child_def)

text \<open>
  The continuation after the detector's answer, the content window still being there:
  the callback that saves the result is scheduled first, then the status.
\<close>

lemma attemptToDetectLanguage_live:
  assumes "attemptToDetectLanguage_begin s = (Inr sample, s1)"
    and "detectLanguage sample s1 = (Inr result, s2)"
    and "contentWindow s2 = Some cw"
  shows "attemptToDetectLanguage detectLanguage s =
           (Resolved,
            s2\<lparr>timers := timers s2 @
                 [SaveDetectedLanguageResults result,
                  PatchTranslationStatus
                    (if confident result then OFFER else LANGUAGE_NOT_DETECTED)]\<rparr>)"
  using assms
  by (simp add: attemptToDetectLanguage_def attemptToDetectLanguage_resume_def
        broadcastUpdatedTranslationStatus_def setTimeout_def)

text \<open>
  C5. Let the call have reached the detector, the detector have answered \<open>result\<close>, and
  the content window be there in the state \<open>s2\<close> in which the answer arrives. Then the
  call resolves, and what it has scheduled since is: for a confident result the saving
  of the result and the status \<open>OFFER\<close>, the result then reaching \<open>ExtensionState\<close> in an
  \<open>add\<close> patch; for a result that is not confident the saving of the result and the
  status \<open>LANGUAGE_NOT_DETECTED\<close>.
\<close>

theorem detection_result_status:
  assumes "attemptToDetectLanguage_begin s = (Inr sample, s1)"
    and "detectLanguage sample s1 = (Inr result, s2)"
    and "contentWindow s2 = Some cw"
  shows "\<exists>s3. attemptToDetectLanguage detectLanguage s = (Resolved, s3) \<and>
           (if confident result
            then timers s3 = timers s2 @ [SaveDetectedLanguageResults result,
                                          PatchTranslationStatus OFFER] \<and>
                 patchDocumentTranslationStateByFrameInfo (frameInfo s2)
                   [Patch add [''detectedLanguageResults''] (ResultsValue result)]
                   \<in> set (extensionState (run_timers s3))
            else timers s3 = timers s2 @ [SaveDetectedLanguageResults result,
                                          PatchTranslationStatus LANGUAGE_NOT_DETECTED])"
  by (simp add: attemptToDetectLanguage_live [where detectLanguage = detectLanguage, OF assms]
        run_timers_eq)

theorem detection_result_status_witness:
  "fst (attemptToDetectLanguage (detector_answers confident_result) scenario_child) = Resolved \<and>
   timers (snd (attemptToDetectLanguage (detector_answers confident_result) scenario_child)) =
     [SaveDetectedLanguageResults confident_result, PatchTranslationStatus OFFER]"
proof -
  have c: "confident confident_result"
    by (simp add: confident_result_def)
  show ?thesis
    using detection_result_status [where detectLanguage = "detector_answers confident_result",
            OF scenario_begin scenario_answer scenario_live]
    by (auto simp add: c timers_run_timers)
qed

text \<open>
  C6. Let the call have reached the detector and the detector have answered, the
  content window being gone in the state \<open>s2\<close> in which the answer arrives. Then the call
  resolves having scheduled since exactly one callback, the one that calls
  \<open>deleteDocumentTranslationStateByFrameInfo\<close>: after the next tick \<open>ExtensionState\<close> has
  received that call and, for this answer, no patch of the result and no patch of the
  status.
\<close>

theorem detection_result_window_gone:
  assumes "attemptToDetectLanguage_begin s = (Inr sample, s1)"
    and "detectLanguage sample s1 = (Inr result, s2)"
    and "contentWindow s2 = None"
  shows "attemptToDetectLanguage detectLanguage s =
           (Resolved, s2\<lparr>timers := timers s2 @ [DeleteDocumentTranslationState]\<rparr>) \<and>
         extensionState (run_timers (snd (attemptToDetectLanguage detectLanguage s))) =
           extensionState (run_timers s2) @
             [deleteDocumentTranslationStateByFrameInfo (frameInfo s2)]"
  using assms
  by (simp add: attemptToDetectLanguage_def attemptToDetectLanguage_resume_def
        setTimeout_def run_timers_eq)

theorem detection_result_window_gone_witness:
  "extensionState (run_timers (snd (attemptToDetectLanguage
       (detector_answers_window_gone confident_result) scenario_child))) =
     [patchDocumentTranslationStateByFrameInfo 7
        [Patch replace [''translationStatus''] (StatusValue DETECTING_LANGUAGE)],
      deleteDocumentTranslationStateByFrameInfo 7]"
proof -
  have gone: "contentWindow ((run_timers scenario_awaiting)\<lparr>contentWindow := None\<rparr>) = None"
    by simp
  show ?thesis
    using detection_result_window_gone
            [where detectLanguage = "detector_answers_window_gone confident_result",
             OF scenario_begin scenario_answer_gone gone]
    by (simp add: run_timers_eq scenario_awaiting_def scenario_child_def)
qed

text \<open>
  C9. Let the call have reached the detector, the detector have answered \<open>result\<close>, and
  the content window be there in the state \<open>s2\<close> in which the answer arrives. Whether the
  result is confident or not, the calls
  that \<open>ExtensionState\<close> receives from the continuation are two: first the \<open>add\<close> patch of
  \<open>detectedLanguageResults\<close> with the detector's result, then a \<open>replace\<close> patch of the
  status. So a result that is not confident is saved as well.
\<close>

theorem detection_result_saved_unconditionally:
  assumes "attemptToDetectLanguage_begin s = (Inr sample, s1)"
    and "detectLanguage sample s1 = (Inr result, s2)"
    and "contentWindow s2 = Some cw"
  shows "\<exists>status.
           extensionState (run_timers (snd (attemptToDetectLanguage detectLanguage s))) =
             extensionState (run_timers s2) @
               [patchDocumentTranslationStateByFrameInfo (frameInfo s2)
                  [Patch add [''detectedLanguageResults''] (ResultsValue result)],
                patchDocumentTranslationStateByFrameInfo (frameInfo s2)
                  [Patch replace [''translationStatus''] (StatusValue status)]]"
  by (simp add: attemptToDetectLanguage_live [where detectLanguage = detectLanguage, OF assms]
        run_timers_eq)

theorem detection_result_saved_unconditionally_witness:
  "\<exists>status.
     extensionState (run_timers (snd (attemptToDetectLanguage (detector_answers unsure_result)
                                        scenario_child))) =
       [patchDocumentTranslationStateByFrameInfo 7
          [Patch replace [''translationStatus''] (StatusValue DETECTING_LANGUAGE)],
        patchDocumentTranslationStateByFrameInfo 7
          [Patch add [''detectedLanguageResults''] (ResultsValue unsure_result)],
        patchDocumentTranslationStateByFrameInfo 7
          [Patch replace [''translationStatus''] (StatusValue status)]] \<and>
     \<not> confident unsure_result"
  using detection_result_saved_unconditionally
          [where detectLanguage = "detector_answers unsure_result",
           OF scenario_begin scenario_answer scenario_live]
  by (simp add: scenario_awaiting_log unsure_result_def run_timers_idem)

section \<open>Translation\<close>

lemma doTranslation_begin_live:
  assumes "contentWindow s = Some cw"
  shows "doTranslation_begin aFrom aTo s =
           (case existing_or_new_TranslationDocument cw s of
              (td, s1) \<Rightarrow>
                (Inr \<lparr>translator_document = td, translator_from = aFrom, translator_to = aTo\<rparr>,
                 s1\<lparr>contentWindow := Some (cw\<lparr>translationDocument := Some td\<rparr>),
                    timers := timers s1 @ [PatchTranslationStatus TRANSLATING],
                    store := (store s1)(td := (store s1 td)
                      \<lparr>translatedFrom := Some aFrom, translatedTo := Some aTo,
                       translationError := False\<rparr>)\<rparr>))"
  using assms
  by (simp add: doTranslation_begin_def existing_or_new_TranslationDocument_def
        construct_TranslationDocument_def broadcastUpdatedTranslationStatus_def setTimeout_def
        update_document_def Let_def split: option.splits)

lemma doTranslation_no_window:
  "contentWindow s = None \<Longrightarrow> doTranslation translate aFrom aTo s = (Rejected TypeError, s)"
  by (simp add: doTranslation_def doTranslation_begin_def)

text \<open>
  C1. Let the call have reached \<open>translator.translate()\<close>, and let that promise settle
  with \<open>outcome\<close>, leaving the state \<open>s2\<close>. Then \<open>doTranslation\<close> resolves in either
  case. When \<open>translate()\<close> rejected, the document model is the one of \<open>s2\<close> with
  \<open>translationError\<close> set (\<open>showTranslation\<close> is not called, and what the translator
  wrote stays), and the one callback scheduled since is the status patch for \<open>ERROR\<close>.
  When it resolved, \<open>showTranslation()\<close> has been called on the document model and the
  one callback scheduled since is the status patch for \<open>TRANSLATED\<close>. (The call reaches
  \<open>translate()\<close> whenever the content window is there: \<open>doTranslation_begin_live\<close>.)
\<close>

theorem translation_outcome_reported:
  assumes "doTranslation_begin aFrom aTo s = (Inr translator, s1)"
    and "translate translator s1 = (outcome, s2)"
  shows "\<exists>s3. doTranslation translate aFrom aTo s = (Resolved, s3) \<and>
           (case outcome of
              Inl ex \<Rightarrow>
                store s3 (translator_document translator) =
                  (store s2 (translator_document translator))\<lparr>translationError := True\<rparr> \<and>
                timers s3 = timers s2 @ [PatchTranslationStatus ERROR]
            | Inr u \<Rightarrow>
                store s3 (translator_document translator) =
                  showTranslation (store s2 (translator_document translator)) \<and>
                timers s3 = timers s2 @ [PatchTranslationStatus TRANSLATED])"
  using assms
  by (simp add: doTranslation_def doTranslation_resume_def update_document_def
        broadcastUpdatedTranslationStatus_def setTimeout_def split: sum.splits)

lemma scenario_translation_begin:
  "doTranslation_begin (js ''en'') (js ''de'') scenario_child =
     (Inr scenario_translator, scenario_translating)"
proof -
  have "contentWindow scenario_child = Some \<lparr>translationDocument = None\<rparr>"
    by (simp add: scenario_child_def)
  then show ?thesis
    by (simp add: doTranslation_begin_live existing_or_new_TranslationDocument_def
          construct_TranslationDocument_def scenario_translator_def scenario_translating_def
          scenario_child_def)
qed

lemma scenario_translating_facts:
  "timers (run_timers scenario_translating) = [] \<and>
   showTranslation_calls (store (run_timers scenario_translating) 0) = 0 \<and>
   translator_document scenario_translator = 0 \<and>
   extensionState (run_timers scenario_translating) =
     [patchDocumentTranslationStateByFrameInfo 7
        [Patch replace [''translationStatus''] (StatusValue TRANSLATING)]]"
  by (simp add: run_timers_eq scenario_translating_def scenario_translator_def
        scenario_child_def new_TranslationDocument_def)

lemma scenario_translate_fails:
  "translate_fails scenario_translator scenario_translating =
     (Inl (Exception 0), run_timers scenario_translating)"
  by (simp add: translate_fails_def)

lemma scenario_translate_succeeds:
  "translate_succeeds scenario_translator scenario_translating =
     (Inr (), run_timers scenario_translating)"
  by (simp add: translate_succeeds_def)

theorem translation_outcome_reported_witness:
  "fst (doTranslation translate_fails (js ''en'') (js ''de'') scenario_child) = Resolved \<and>
   translationError
     (store (snd (doTranslation translate_fails (js ''en'') (js ''de'') scenario_child)) 0) \<and>
   timers (snd (doTranslation translate_fails (js ''en'') (js ''de'') scenario_child)) =
     [PatchTranslationStatus ERROR] \<and>
   fst (doTranslation translate_succeeds (js ''en'') (js ''de'') scenario_child) = Resolved \<and>
   showTranslation_calls
     (store (snd (doTranslation translate_succeeds (js ''en'') (js ''de'') scenario_child)) 0) = 1 \<and>
   timers (snd (doTranslation translate_succeeds (js ''en'') (js ''de'') scenario_child)) =
     [PatchTranslationStatus TRANSLATED]"
  using translation_outcome_reported [where translate = translate_fails,
            OF scenario_translation_begin scenario_translate_fails]
        translation_outcome_reported [where translate = translate_succeeds,
            OF scenario_translation_begin scenario_translate_succeeds]
  by (auto simp add: scenario_translating_facts showTranslation_def)

text \<open>
  C2, as amended. With a content window that is there, \<open>doTranslation\<close> hands the
  translator the document model that the window refers to and leaves the window
  referring to it. When the window referred to a model already, that one is used, no
  object is constructed and the model's units are untouched; only when it referred to
  none is one constructed, from the document as it is then. Hence any later request
  for the same window, whatever the languages and whatever the document has become,
  works on that same model and constructs nothing: a content window never has more
  than one model attached. Models that are not attached can exist besides, as shown
  further down.
\<close>

theorem translation_document_reused:
  assumes "contentWindow s = Some cw"
  shows "\<exists>translator s1.
           doTranslation_begin aFrom aTo s = (Inr translator, s1) \<and>
           contentWindow s1 =
             Some (cw\<lparr>translationDocument := Some (translator_document translator)\<rparr>) \<and>
           (case translationDocument cw of
              Some r \<Rightarrow>
                translator_document translator = r \<and> next_ref s1 = next_ref s \<and>
                roots (store s1 r) = roots (store s r)
            | None \<Rightarrow>
                translator_document translator = next_ref s \<and>
                next_ref s1 = Suc (next_ref s) \<and>
                roots (store s1 (next_ref s)) = units (document s)) \<and>
           (\<forall>s' aFrom' aTo'. contentWindow s' = contentWindow s1 \<longrightarrow>
              (\<exists>translator' s1'.
                 doTranslation_begin aFrom' aTo' s' = (Inr translator', s1') \<and>
                 translator_document translator' = translator_document translator \<and>
                 next_ref s1' = next_ref s' \<and>
                 contentWindow s1' = contentWindow s1 \<and>
                 roots (store s1' (translator_document translator)) =
                   roots (store s' (translator_document translator))))"
proof (cases "translationDocument cw")
  case None
  then show ?thesis
    using assms
    by (simp add: doTranslation_begin_live existing_or_new_TranslationDocument_def
          construct_TranslationDocument_def new_TranslationDocument_def)
next
  case (Some r)
  then show ?thesis
    using assms
    by (simp add: doTranslation_begin_live existing_or_new_TranslationDocument_def)
qed

theorem translation_document_reused_witness:
  "\<exists>translator s1 translator' s1'.
     doTranslation_begin (js ''en'') (js ''de'') scenario_child = (Inr translator, s1) \<and>
     doTranslation_begin (js ''en'') (js ''fr'') s1 = (Inr translator', s1') \<and>
     translator_document translator = 0 \<and> translator_document translator' = 0 \<and>
     next_ref s1 = 1 \<and> next_ref s1' = 1 \<and>
     roots (store s1' 0) = units scenario_document"
proof -
  have live: "contentWindow scenario_child = Some \<lparr>translationDocument = None\<rparr>"
    by (simp add: scenario_child_def)
  obtain translator s1 where
    b: "doTranslation_begin (js ''en'') (js ''de'') scenario_child = (Inr translator, s1)"
    and d: "translator_document translator = next_ref scenario_child"
    and n: "next_ref s1 = Suc (next_ref scenario_child)"
    and r: "roots (store s1 (next_ref scenario_child)) = units (document scenario_child)"
    and again: "\<forall>s' aFrom' aTo'. contentWindow s' = contentWindow s1 \<longrightarrow>
              (\<exists>translator' s1'.
                 doTranslation_begin aFrom' aTo' s' = (Inr translator', s1') \<and>
                 translator_document translator' = translator_document translator \<and>
                 next_ref s1' = next_ref s' \<and>
                 contentWindow s1' = contentWindow s1 \<and>
                 roots (store s1' (translator_document translator)) =
                   roots (store s' (translator_document translator)))"
    using translation_document_reused [OF live, of "js ''en''" "js ''de''"] by auto
  from again obtain translator' s1' where
    b': "doTranslation_begin (js ''en'') (js ''fr'') s1 = (Inr translator', s1')"
    and d': "translator_document translator' = translator_document translator"
    and n': "next_ref s1' = next_ref s1"
    and r': "roots (store s1' (translator_document translator)) =
               roots (store s1 (translator_document translator))"
    by blast
  have z: "next_ref scenario_child = 0" "document scenario_child = scenario_document"
    by (simp_all add: scenario_child_def)
  show ?thesis
    using b b' d d' n n' r r' by (simp add: z)
qed

lemma getDocumentTranslationStatistics_suspended:
  assumes "getDocumentTranslationStatistics_begin s = (Inr (td, elements), s1)"
  shows "getDocumentTranslationStatistics w observe generateTextForItem s =
           (case getElementsVisibleInViewport observe elements of
              None \<Rightarrow> None
            | Some elementsVisibleInViewport \<Rightarrow>
                (case collect_texts (generateTextForItem (store s1 td)) w
                        elementsVisibleInViewport (roots (store s1 td)) ([], [], []) of
                   (ts, tsInViewport, tsVisibleInViewport) \<Rightarrow>
                     Some (Inr \<lparr>texts = ts,
                                textsInViewport = tsInViewport,
                                textsVisibleInViewport = tsVisibleInViewport,
                                wordCount = length (split (join (js '' '') ts) 0x20),
                                wordCountInViewport =
                                  length (split (join (js '' '') tsInViewport) 0x20),
                                wordCountVisibleInViewport =
                                  length (split (join (js '' '') tsVisibleInViewport) 0x20)\<rparr>,
                           s1)))"
  using assms
  by (auto simp add: getDocumentTranslationStatistics_begin_def
        getDocumentTranslationStatistics_def Let_def split: option.splits prod.splits)

text \<open>
  That a frame has at most one \<open>TranslationDocument\<close> at a time does not hold. In the
  scenario's frame \<open>getDocumentTranslationStatistics\<close> is called first: no model is
  stored, so it constructs one (reference 0), leaves the content window without a
  model, and is suspended. A call of \<open>doTranslation\<close> now finds no model on the window
  and constructs a second one (reference 1), which it stores: two models of the same
  frame, the first still in use by the suspended call.
\<close>

theorem one_TranslationDocument_per_frame_counterexample:
  "getDocumentTranslationStatistics_begin scenario_child =
     (Inr (0, [0, 1]), scenario_measured) \<and>
   contentWindow scenario_measured = Some \<lparr>translationDocument = None\<rparr> \<and>
   fst (doTranslation_begin (js ''en'') (js ''de'') scenario_measured) =
     Inr \<lparr>translator_document = 1, translator_from = js ''en'', translator_to = js ''de''\<rparr> \<and>
   contentWindow (snd (doTranslation_begin (js ''en'') (js ''de'') scenario_measured)) =
     Some \<lparr>translationDocument = Some 1\<rparr> \<and>
   next_ref (snd (doTranslation_begin (js ''en'') (js ''de'') scenario_measured)) = 2 \<and>
   \<not> next_ref (snd (doTranslation_begin (js ''en'') (js ''de'') scenario_measured)) \<le> 1"
proof -
  have live: "contentWindow scenario_measured = Some \<lparr>translationDocument = None\<rparr>"
    by (simp add: scenario_measured_def scenario_child_def)
  have stats: "getDocumentTranslationStatistics_begin scenario_child =
                 (Inr (0, [0, 1]), scenario_measured)"
    by (simp add: getDocumentTranslationStatistics_begin_def
          existing_or_new_TranslationDocument_def construct_TranslationDocument_def
          scenario_measured_def scenario_child_def new_TranslationDocument_def
          scenario_document_def)
  have tr: "doTranslation_begin (js ''en'') (js ''de'') scenario_measured =
              (Inr \<lparr>translator_document = 1, translator_from = js ''en'',
                     translator_to = js ''de''\<rparr>,
               scenario_measured
                 \<lparr>contentWindow := Some \<lparr>translationDocument = Some 1\<rparr>,
                  store := (store scenario_measured)
                    (1 := (new_TranslationDocument scenario_document)
                            \<lparr>translatedFrom := Some (js ''en''), translatedTo := Some (js ''de''),
                             translationError := False\<rparr>),
                  next_ref := 2,
                  timers := [PatchTranslationStatus TRANSLATING]\<rparr>)"
    using doTranslation_begin_live [OF live, of "js ''en''" "js ''de''"]
    by (simp add: existing_or_new_TranslationDocument_def
          construct_TranslationDocument_def scenario_measured_def scenario_child_def)
  show ?thesis
    by (simp add: live stats tr)
qed

text \<open>
  C7. The scenario's frame is asked to translate; while \<open>translate()\<close> is outstanding the
  content window goes away, and then the promise resolves. \<open>doTranslation\<close> resolves
  with the window still gone, having called \<open>showTranslation()\<close> on the document model
  and having had \<open>ExtensionState\<close> patch the status to \<open>TRANSLATED\<close>: the result is applied,
  no test of \<open>this.contentWindow\<close> follows the \<open>await\<close>, unlike in
  \<open>attemptToDetectLanguage\<close>.
\<close>

theorem translation_applied_after_window_gone:
  "fst (doTranslation translate_succeeds_window_gone (js ''en'') (js ''de'') scenario_child) =
     Resolved \<and>
   contentWindow
     (snd (doTranslation translate_succeeds_window_gone (js ''en'') (js ''de'') scenario_child)) =
     None \<and>
   showTranslation_calls
     (store (snd (doTranslation translate_succeeds_window_gone (js ''en'') (js ''de'')
                    scenario_child)) 0) = 1 \<and>
   extensionState
     (run_timers (snd (doTranslation translate_succeeds_window_gone (js ''en'') (js ''de'')
                         scenario_child))) =
     [patchDocumentTranslationStateByFrameInfo 7
        [Patch replace [''translationStatus''] (StatusValue TRANSLATING)],
      patchDocumentTranslationStateByFrameInfo 7
        [Patch replace [''translationStatus''] (StatusValue TRANSLATED)]]"
proof -
  have "doTranslation translate_succeeds_window_gone (js ''en'') (js ''de'') scenario_child =
          doTranslation_resume 0 (Inr ()) ((run_timers scenario_translating)\<lparr>contentWindow := None\<rparr>)"
    by (simp add: doTranslation_def scenario_translation_begin translate_succeeds_window_gone_def
          scenario_translator_def)
  then show ?thesis
    by (simp add: doTranslation_resume_def update_document_def showTranslation_def
          broadcastUpdatedTranslationStatus_def setTimeout_def run_timers_eq
          scenario_translating_def scenario_child_def new_TranslationDocument_def)
qed


section \<open>Statistics of a document\<close>

lemma length_split_from:
  "length (split_from sep field s) = Suc (length (filter (\<lambda>c. c = sep) s))"
  by (induction s arbitrary: field) simp_all

lemma split_from_nonempty: "split_from sep field s \<noteq> []"
  by (induction s arbitrary: field) simp_all

lemma join_split_from: "join [sep] (split_from sep field s) = field @ s"
proof (induction s arbitrary: field)
  case Nil
  show ?case by simp
next
  case (Cons c cs)
  show ?case
  proof (cases "c = sep")
    case True
    obtain f fs where "split_from sep [] cs = f # fs"
      using split_from_nonempty [of sep "[]" cs] by (cases "split_from sep [] cs") auto
    then show ?thesis
      using True Cons.IH [of "[]"] by simp
  next
    case False
    then show ?thesis by (simp add: Cons.IH)
  qed
qed

lemma length_split: "length (split s 0x20) = number_of_fields s"
  by (simp add: split_def number_of_fields_def length_split_from)

text \<open>
  C10. Let the content window be there and the observer's callback be called. Then
  \<open>getDocumentTranslationStatistics\<close> resolves, and each of the three word counts it
  reports is the number of fields that single spaces separate in the corresponding
  texts joined with a space; for an empty list of texts the count is 1.
\<close>

theorem statistics_word_counts:
  assumes "contentWindow s = Some cw"
    and "existing_or_new_TranslationDocument cw s = (td, s1)"
    and "observe (map nodeRef (roots (store s1 td))) = Some entries"
  shows "\<exists>st. getDocumentTranslationStatistics w observe generateTextForItem s =
                Some (Inr st, s1) \<and>
           wordCount st = number_of_fields (join (js '' '') (texts st)) \<and>
           wordCountInViewport st = number_of_fields (join (js '' '') (textsInViewport st)) \<and>
           wordCountVisibleInViewport st =
             number_of_fields (join (js '' '') (textsVisibleInViewport st)) \<and>
           (texts st = [] \<longrightarrow> wordCount st = 1) \<and>
           (textsInViewport st = [] \<longrightarrow> wordCountInViewport st = 1) \<and>
           (textsVisibleInViewport st = [] \<longrightarrow> wordCountVisibleInViewport st = 1)"
  using assms
  by (simp add: getDocumentTranslationStatistics_def getElementsVisibleInViewport_def Let_def
        length_split number_of_fields_def split: prod.splits)

lemma scenario_new_document:
  "existing_or_new_TranslationDocument \<lparr>translationDocument = None\<rparr> scenario_child =
     (0, scenario_measured)"
  by (simp add: existing_or_new_TranslationDocument_def construct_TranslationDocument_def
        scenario_measured_def scenario_child_def)

lemma scenario_observed:
  "nothing_intersects (map nodeRef (roots (store scenario_measured 0))) =
     Some [\<lparr>target = 0, isIntersecting = False\<rparr>, \<lparr>target = 1, isIntersecting = False\<rparr>]"
  by (simp add: nothing_intersects_def scenario_measured_def scenario_child_def
        new_TranslationDocument_def scenario_document_def)

theorem statistics_word_counts_witness:
  "\<exists>st. getDocumentTranslationStatistics scenario_layout nothing_intersects scenario_texts
           scenario_child = Some (Inr st, scenario_measured) \<and>
        texts st = [js ''Hello  world'', js ''Hi''] \<and> wordCount st = 4 \<and>
        textsInViewport st = [js ''Hello  world''] \<and> wordCountInViewport st = 3 \<and>
        textsVisibleInViewport st = [] \<and> wordCountVisibleInViewport st = 1"
proof -
  have live: "contentWindow scenario_child = Some \<lparr>translationDocument = None\<rparr>"
    by (simp add: scenario_child_def)
  have roots: "roots (store scenario_measured 0) = [\<lparr>nodeRef = 0\<rparr>, \<lparr>nodeRef = 1\<rparr>]"
    by (simp add: scenario_measured_def scenario_child_def new_TranslationDocument_def
          scenario_document_def)
  obtain st where
    r: "getDocumentTranslationStatistics scenario_layout nothing_intersects scenario_texts
          scenario_child = Some (Inr st, scenario_measured)"
    and c: "wordCount st = number_of_fields (join (js '' '') (texts st))"
      "wordCountInViewport st = number_of_fields (join (js '' '') (textsInViewport st))"
    and e: "textsVisibleInViewport st = [] \<longrightarrow> wordCountVisibleInViewport st = 1"
    using statistics_word_counts [where observe = nothing_intersects and w = scenario_layout
                 and generateTextForItem = scenario_texts,
               OF live scenario_new_document scenario_observed]
    by blast
  have t: "texts st = [js ''Hello  world'', js ''Hi''] \<and>
           textsInViewport st = [js ''Hello  world''] \<and> textsVisibleInViewport st = []"
    using r
    by (auto simp add: getDocumentTranslationStatistics_def live scenario_new_document
          getElementsVisibleInViewport_def nothing_intersects_def roots Let_def
          scenario_texts_def scenario_layout_def isElementInViewport_def trim_def
          isWhiteSpace_def js_def)
  have n: "number_of_fields (join (js '' '') [js ''Hello  world'', js ''Hi'']) = 4"
    "number_of_fields (join (js '' '') [js ''Hello  world'']) = 3"
    by (simp_all add: number_of_fields_def js_def)
  show ?thesis
    using r c e t n by simp
qed


end
